theory Spec2Isabelle
  imports Main "HOL-Library.Sublist"
begin

section \<open>Strings as the source uses them\<close>

text \<open>
  Python strings are modelled as \<^typ>\<open>string\<close>. The source only ever replaces one
  character by another (\<^verbatim>\<open>str.replace(".", "_")\<close> and back), strips slashes, splits at
  the last slash, and upper-cases an option key.
\<close>

definition replace_char :: "char \<Rightarrow> char \<Rightarrow> string \<Rightarrow> string" where
  \<comment> \<open>\<^verbatim>\<open>s.replace(a, b)\<close> for one-character \<^verbatim>\<open>a\<close> and \<^verbatim>\<open>b\<close>: every occurrence is replaced.\<close>
  "replace_char a b s = map (\<lambda>c. if c = a then b else c) s"

definition upper_char :: "char \<Rightarrow> char" where
  \<comment> \<open>\<^verbatim>\<open>str.upper\<close> on one ASCII character: the letters a..z move to A..Z, every other
      character stays.\<close>
  "upper_char c =
     (if (97::nat) \<le> of_char c \<and> of_char c \<le> (122::nat)
      then char_of (of_char c - (32::nat)) else c)"

definition upper :: "string \<Rightarrow> string" where
  \<comment> \<open>\<^verbatim>\<open>str.upper()\<close>, on the ASCII strings that option keys are.\<close>
  "upper s = map upper_char s"

section \<open>OptionDescriptor Translator\<close>

text \<open>
  The option definition is consumed read-only; the translator reads exactly these
  attributes of it.
\<close>

record 't config_option =
  key :: string
  description :: string
  deprecated :: bool
  deprecation_text :: string
  deprecation_date :: string
  option_type :: 't

text \<open>The dictionary that \<^verbatim>\<open>_convert_config_option_to_click_option\<close> returns.\<close>

record 't parsed_parameter =
  p_param :: string
  p_description :: string
  p_type :: 't
  p_option :: string
  p_envvar :: string

definition deprecation_suffix :: "'t config_option \<Rightarrow> string" where
  \<comment> \<open>\<^verbatim>\<open>"\n {} - {}".format(config_option.deprecation_text, config_option.deprecation_date)\<close>\<close>
  "deprecation_suffix config_option =
     [CHR 0x0A] @ '' '' @ deprecation_text config_option @ '' - '' @ deprecation_date config_option"

definition convert_config_option_to_click_option ::
  "'t config_option \<Rightarrow> 't parsed_parameter" where
  "convert_config_option_to_click_option config_option =
     (let option = ''--'' @ key config_option;
          param = replace_char CHR ''.'' CHR ''_'' (key config_option);
          descr = (if deprecated config_option
                   then description config_option @ deprecation_suffix config_option
                   else description config_option);
          envvar = ''STREAMLIT_CONFIG_'' @ upper param
      in \<lparr> p_param = param, p_description = descr, p_type = option_type config_option,
           p_option = option, p_envvar = envvar \<rparr>)"

text \<open>
  The installer walks the registry (an ordered dictionary, here the list of its items)
  backwards and wraps the command with one click option per entry; the model returns
  the options in the order in which they are applied.
\<close>

definition configurator_options ::
  "(string \<times> 't config_option) list \<Rightarrow> 't parsed_parameter list" where
  "configurator_options config_options =
     map (\<lambda>(_, v). convert_config_option_to_click_option v) (rev config_options)"

section \<open>Key translation and its reverse\<close>

definition config_option_def_key :: "string \<Rightarrow> string" where
  \<comment> \<open>\<^verbatim>\<open>config_option.replace("_", ".")\<close> in \<^verbatim>\<open>_apply_config_options_from_cli\<close>\<close>
  "config_option_def_key config_option = replace_char CHR ''_'' CHR ''.'' config_option"

section \<open>Config Override Applier\<close>

type_synonym 'v config_store = "string \<rightharpoonup> ('v \<times> string)"

definition config_set_option ::
  "string \<Rightarrow> 'v \<Rightarrow> string \<Rightarrow> 'v config_store \<Rightarrow> 'v config_store" where
  \<comment> \<open>Modelled from the spec: \<^verbatim>\<open>streamlit.config._set_option(key, value, where_defined)\<close>
      is not part of the file at hand. It writes the value into the live configuration
      store together with its provenance tag.\<close>
  "config_set_option k v where_defined store = store(k \<mapsto> (v, where_defined))"

text \<open>
  \<^verbatim>\<open>kwargs\<close> is a dictionary from destination parameter name to parsed value, \<^verbatim>\<open>None\<close>
  for a flag that was not given. It is modelled by the list of its items in iteration
  order; the loop visits them one after the other.
\<close>

fun apply_config_options_from_cli ::
  "(string \<times> 'v option) list \<Rightarrow> 'v config_store \<Rightarrow> 'v config_store" where
  "apply_config_options_from_cli [] store = store"
| "apply_config_options_from_cli ((config_option, val) # kwargs) store =
     apply_config_options_from_cli kwargs
       (case val of
          None \<Rightarrow> store
        | Some v \<Rightarrow>
            config_set_option (config_option_def_key config_option) v ''cli call option'' store)"

text \<open>
  The writes the specification asks for: one per entry with a non-null value, at the
  translated key, tagged \<open>cli call option\<close>, in the order of the entries.
\<close>

definition cli_writes :: "(string \<times> 'v option) list \<Rightarrow> (string \<times> ('v \<times> string)) list" where
  "cli_writes kwargs =
     List.map_filter
       (\<lambda>(config_option, val).
          map_option (\<lambda>v. (config_option_def_key config_option, (v, ''cli call option''))) val)
       kwargs"

section \<open>The world the commands act on\<close>

type_synonym bytes = string

datatype exn =
    BadParameter string  \<comment> \<open>\<^verbatim>\<open>click.BadParameter(message)\<close>\<close>
  | OSError string  \<comment> \<open>raised by \<^verbatim>\<open>open\<close>, by the creation of the temporary directory or by a write to the output; it carries the path or the text\<close>
  | CollaboratorError string  \<comment> \<open>anything raised by the credentials or bootstrap modules\<close>

type_synonym 'a result = "exn + 'a"

record 'v world =
  config_options :: "'v config_store"
  files :: "string \<rightharpoonup> bytes"
  dirs :: "string set"
  is_running_with_streamlit :: bool
  stdout :: "string list"
  bootstrap_runs :: "(string \<times> string \<times> string list) list"
  cache_present :: bool

text \<open>
  The response of \<^verbatim>\<open>requests.get\<close>: the source reads its \<^verbatim>\<open>content\<close> and calls
  \<^verbatim>\<open>raise_for_status()\<close> on it, which raises \<^verbatim>\<open>HTTPError\<close>, a \<^verbatim>\<open>RequestException\<close>, for a
  4xx or 5xx status; \<open>http_error_text\<close> is the message the library gives that error.
\<close>

record response =
  status_code :: nat
  content :: bytes
  http_error_text :: string

definition raise_for_status :: "response \<Rightarrow> string option" where
  "raise_for_status resp =
     (if 400 \<le> status_code resp \<and> status_code resp < 600
      then Some (http_error_text resp) else None)"

text \<open>
  What the modules outside this file answer. Each is taken as given: \<^verbatim>\<open>validators.url\<close>,
  the path component of \<^verbatim>\<open>urlparse\<close>, the name \<^verbatim>\<open>tempfile.mkdtemp\<close> picks,
  \<^verbatim>\<open>requests.get\<close> (\<open>Inl\<close> the text of the \<^verbatim>\<open>RequestException\<close> it raises), the command
  line click reports, the credentials check, the bootstrap runner (\<open>Some\<close> the
  exception raised, \<open>None\<close> a normal return), \<^verbatim>\<open>click.style\<close> and the cache path.

  Two answers of the operating system are taken as given as well. \<open>open_refused\<close>
  tells whether \<^verbatim>\<open>open(path, "wb")\<close> is refused for a reason that the paths and the
  directories of the model do not show: a component longer than the file system
  allows, a missing parent directory, a missing permission. \<open>click_echo\<close> tells whether
  writing the upgrade notice to the output raises (\<open>Some\<close> the exception, as on a closed
  or broken output stream) or returns.

  Each of the two is asked once in a run, so one answer per path and per line is all
  a run can see.

  Of the version check the record holds what the lookup of the latest release gives:
  \<open>Inl\<close> the text of its failure (no network, say), \<open>Inr\<close> whether a newer release is
  known. The function the source calls, \<open>should_show_new_version_notice\<close> below, is
  built on it.
\<close>

record env =
  url :: "string \<Rightarrow> bool"
  urlparse_path :: "string \<Rightarrow> string"
  mkdtemp :: string
  requests_get :: "string \<Rightarrow> string + response"
  get_command_line_as_string :: string
  check_activated :: "exn option"
  newer_release_known :: "string + bool"
  bootstrap_run :: "string \<Rightarrow> string \<Rightarrow> string list \<Rightarrow> exn option"
  style :: "string \<Rightarrow> string option \<Rightarrow> bool \<Rightarrow> string"
  get_cache_path :: string
  open_refused :: "string \<Rightarrow> bool"
  click_echo :: "string \<Rightarrow> exn option"

definition should_show_new_version_notice :: "env \<Rightarrow> bool" where
  \<comment> \<open>Modelled from the spec: \<^verbatim>\<open>streamlit.version.should_show_new_version_notice\<close> is not
      part of the file at hand. It answers whether a newer release is known; a failure
      of the lookup is swallowed inside it and never surfaces: the call returns, and
      then knows of no newer release.\<close>
  "should_show_new_version_notice e =
     (case newer_release_known e of Inl failure \<Rightarrow> False | Inr known \<Rightarrow> known)"

subsection \<open>Paths and files\<close>

definition strip_slashes :: "string \<Rightarrow> string" where
  \<comment> \<open>\<^verbatim>\<open>path.strip('/')\<close>: all leading and all trailing slashes go.\<close>
  "strip_slashes s =
     rev (dropWhile (\<lambda>c. c = CHR ''/'') (rev (dropWhile (\<lambda>c. c = CHR ''/'') s)))"

definition last_segment :: "string \<Rightarrow> string" where
  \<comment> \<open>\<^verbatim>\<open>s.rsplit('/', 1)[-1]\<close>: what follows the last slash, all of \<^verbatim>\<open>s\<close> if there is none.\<close>
  "last_segment s = rev (takeWhile (\<lambda>c. c \<noteq> CHR ''/'') (rev s))"

definition path_join :: "string \<Rightarrow> string \<Rightarrow> string" where
  \<comment> \<open>\<^verbatim>\<open>os.path.join(a, b)\<close> of \<^verbatim>\<open>posixpath\<close>, for two components.\<close>
  "path_join a b =
     (if b \<noteq> [] \<and> hd b = CHR ''/'' then b
      else if a = [] \<or> last a = CHR ''/'' then a @ b
      else a @ ''/'' @ b)"

definition path_exists :: "'v world \<Rightarrow> string \<Rightarrow> bool" where
  \<comment> \<open>\<^verbatim>\<open>os.path.exists\<close>\<close>
  "path_exists w p = (p \<in> dom (files w) \<or> p \<in> dirs w)"

definition names_directory :: "'v world \<Rightarrow> string \<Rightarrow> bool" where
  \<comment> \<open>The path is a directory, or its last component is empty (the path is empty or
      ends in a slash), \<^verbatim>\<open>.\<close> or \<^verbatim>\<open>..\<close>: no regular file can be opened there.\<close>
  "names_directory w p =
     (p \<in> dirs w \<or> last_segment p = [] \<or> last_segment p = ''.'' \<or> last_segment p = ''..'')"

definition open_wb :: "env \<Rightarrow> string \<Rightarrow> 'v world \<Rightarrow> unit result \<times> 'v world" where
  \<comment> \<open>\<^verbatim>\<open>open(script_path, "wb")\<close>: raises an \<^verbatim>\<open>OSError\<close> where the path names a directory
      and where the operating system refuses the path for another reason, and creates
      the file, or truncates it, otherwise.\<close>
  "open_wb e p w =
     (if names_directory w p \<or> open_refused e p then (Inl (OSError p), w)
      else (Inr (), w\<lparr>files := (files w)(p \<mapsto> [])\<rparr>))"

definition fp_write :: "string \<Rightarrow> bytes \<Rightarrow> 'v world \<Rightarrow> 'v world" where
  \<comment> \<open>\<^verbatim>\<open>fp.write(data)\<close> on the file just opened at \<^verbatim>\<open>p\<close>\<close>
  "fp_write p data w =
     w\<lparr>files := (files w)(p \<mapsto> (case files w p of None \<Rightarrow> [] | Some old \<Rightarrow> old) @ data)\<rparr>"

definition echo :: "string \<Rightarrow> 'v world \<Rightarrow> 'v world" where
  \<comment> \<open>a line written by \<^verbatim>\<open>click.echo\<close> or \<^verbatim>\<open>print\<close>: one more line on the user-visible
      output\<close>
  "echo line w = w\<lparr>stdout := stdout w @ [line]\<rparr>"

definition echo_or_raise :: "env \<Rightarrow> string \<Rightarrow> 'v world \<Rightarrow> unit result \<times> 'v world" where
  \<comment> \<open>\<^verbatim>\<open>click.echo(line)\<close> where the output may refuse the write: the exception leaves
      the call and the line is not on the output\<close>
  "echo_or_raise e line w =
     (case click_echo e line of
        Some err \<Rightarrow> (Inl err, w)
      | None \<Rightarrow> (Inr (), echo line w))"

subsection \<open>The scoped temporary directory\<close>

definition inside :: "string \<Rightarrow> string \<Rightarrow> bool" where
  \<comment> \<open>the path \<open>p\<close> lies under the directory \<open>d\<close>\<close>
  "inside d p = prefix (d @ ''/'') p"

definition enter_temporary_directory :: "env \<Rightarrow> 'v world \<Rightarrow> string result \<times> 'v world" where
  \<comment> \<open>Modelled from the spec: \<^verbatim>\<open>streamlit.temporary_directory.TemporaryDirectory\<close> is not
      part of the file at hand. Entering the scope acquires a directory that did not
      exist before; a name that is already taken is a failure to acquire one.\<close>
  "enter_temporary_directory e w =
     (if path_exists w (mkdtemp e) then (Inl (OSError (mkdtemp e)), w)
      else (Inr (mkdtemp e), w\<lparr>dirs := insert (mkdtemp e) (dirs w)\<rparr>))"

definition exit_temporary_directory :: "string \<Rightarrow> 'v world \<Rightarrow> 'v world" where
  \<comment> \<open>Modelled from the spec: leaving the scope deletes the directory and all it holds,
      whatever the outcome of the body was.\<close>
  "exit_temporary_directory d w =
     w\<lparr>files := (\<lambda>p. if inside d p then None else files w p),
       dirs := {p \<in> dirs w. p \<noteq> d \<and> \<not> inside d p}\<rparr>"

section \<open>Remote Fetcher\<close>

text \<open>
  \<^verbatim>\<open>_download_remote(script_path, url_path)\<close>. The file is opened first; an error of
  \<^verbatim>\<open>open\<close> is not caught. Inside, a \<^verbatim>\<open>RequestException\<close> of \<^verbatim>\<open>requests.get\<close> or of
  \<^verbatim>\<open>raise_for_status\<close> becomes a \<^verbatim>\<open>BadParameter\<close>; the file stays as \<^verbatim>\<open>open\<close> left it.
\<close>

definition fetch_error_message :: "string \<Rightarrow> string \<Rightarrow> string" where
  \<comment> \<open>\<^verbatim>\<open>"Unable to fetch {}.\n{}".format(url_path, e)\<close>\<close>
  "fetch_error_message url_path e = ''Unable to fetch '' @ url_path @ ''.'' @ [CHR 0x0A] @ e"

definition download_remote ::
  "env \<Rightarrow> string \<Rightarrow> string \<Rightarrow> 'v world \<Rightarrow> unit result \<times> 'v world" where
  "download_remote e script_path url_path w =
     (case open_wb e script_path w of
        (Inl err, w1) \<Rightarrow> (Inl err, w1)
      | (Inr _, w1) \<Rightarrow>
          (case requests_get e url_path of
             Inl msg \<Rightarrow> (Inl (BadParameter (fetch_error_message url_path msg)), w1)
           | Inr resp \<Rightarrow>
               (case raise_for_status resp of
                  Some msg \<Rightarrow> (Inl (BadParameter (fetch_error_message url_path msg)), w1)
                | None \<Rightarrow> (Inr (), fp_write script_path (content resp) w1))))"

section \<open>Run Orchestrator\<close>

definition NEW_VERSION_TEXT :: "env \<Rightarrow> string" where
  "NEW_VERSION_TEXT e =
     [CHR 0x0A] @ ''  ''
       @ style e ''A new version of Streamlit is available.'' (Some ''blue'') True
       @ [CHR 0x0A, CHR 0x0A]
       @ ''  See what's new at https://discuss.streamlit.io/c/announcements''
       @ [CHR 0x0A, CHR 0x0A]
       @ ''  Enter the following command to upgrade:'' @ [CHR 0x0A]
       @ ''  '' @ style e ''$'' (Some ''blue'') False @ '' ''
       @ style e ''pip install streamlit --upgrade'' None True @ [CHR 0x0A]"

text \<open>
  \<^verbatim>\<open>_main_run(file, args)\<close>, written \<open>main_run'\<close> to keep it apart from the command
  \<^verbatim>\<open>main_run\<close>. Nothing here is wrapped in a handler: whatever the credentials check,
  the writing of the notice or the bootstrap runner raises leaves the function at that
  point.
\<close>

definition main_run' ::
  "env \<Rightarrow> string \<Rightarrow> string list \<Rightarrow> 'v world \<Rightarrow> unit result \<times> 'v world" where
  "main_run' e file args w =
     (let command_line = get_command_line_as_string e;
          w1 = w\<lparr>is_running_with_streamlit := True\<rparr>
      in case check_activated e of
           Some err \<Rightarrow> (Inl err, w1)
         | None \<Rightarrow>
             (case (if should_show_new_version_notice e
                    then echo_or_raise e (NEW_VERSION_TEXT e) w1 else (Inr (), w1)) of
                (Inl err, w2) \<Rightarrow> (Inl err, w2)
              | (Inr _, w2) \<Rightarrow>
                  (let w3 = w2\<lparr>bootstrap_runs := bootstrap_runs w2 @ [(file, command_line, args)]\<rparr>
                   in case bootstrap_run e file command_line args of
                        Some err \<Rightarrow> (Inl err, w3)
                      | None \<Rightarrow> (Inr (), w3))))"

section \<open>Target Resolver: the run command\<close>

definition script_path_for :: "env \<Rightarrow> string \<Rightarrow> string \<Rightarrow> string" where
  \<comment> \<open>\<^verbatim>\<open>path = urlparse(target).path\<close> and
      \<^verbatim>\<open>script_path = os.path.join(temp_dir, path.strip('/').rsplit('/', 1)[-1])\<close>\<close>
  "script_path_for e target temp_dir =
     (let path = urlparse_path e target
      in path_join temp_dir (last_segment (strip_slashes path)))"

definition with_body ::
  "env \<Rightarrow> string \<Rightarrow> string list \<Rightarrow> string \<Rightarrow> 'v world \<Rightarrow> unit result \<times> 'v world" where
  \<comment> \<open>the body of the \<^verbatim>\<open>with TemporaryDirectory() as temp_dir\<close> block\<close>
  "with_body e target args temp_dir w =
     (let script_path = script_path_for e target temp_dir
      in case download_remote e script_path target w of
           (Inl err, w1) \<Rightarrow> (Inl err, w1)
         | (Inr _, w1) \<Rightarrow> main_run' e script_path args w1)"

definition main_run ::
  "env \<Rightarrow> string \<Rightarrow> string list \<Rightarrow> (string \<times> 'v option) list \<Rightarrow> 'v world
     \<Rightarrow> unit result \<times> 'v world" where
  "main_run e target args kwargs w =
     (let w1 = w\<lparr>config_options := apply_config_options_from_cli kwargs (config_options w)\<rparr>
      in if url e target then
           (case enter_temporary_directory e w1 of
              (Inl err, w2) \<Rightarrow> (Inl err, w2)
            | (Inr temp_dir, w2) \<Rightarrow>
                (let (r, w3) = with_body e target args temp_dir w2
                 in (r, exit_temporary_directory temp_dir w3)))
         else if \<not> path_exists w1 target then
           (Inl (BadParameter (''File does not exist: '' @ target)), w1)
         else main_run' e target args w1)"

section \<open>Cache commands and the legacy alias\<close>





section \<open>Freshness of the temporary directory, and a concrete setting\<close>

definition proper_temp_name :: "string \<Rightarrow> bool" where
  \<comment> \<open>\<^verbatim>\<open>tempfile.mkdtemp\<close> returns a non-empty path that does not end in a slash\<close>
  "proper_temp_name d = (d \<noteq> [] \<and> last d \<noteq> CHR ''/'')"

definition fresh_directory :: "'v world \<Rightarrow> string \<Rightarrow> bool" where
  \<comment> \<open>nothing exists at the name, and no directory below it\<close>
  "fresh_directory w d =
     (proper_temp_name d \<and> \<not> path_exists w d \<and> (\<forall>p \<in> dirs w. \<not> inside d p))"

text \<open>
  One concrete setting, for evaluating the commands: a machine with the script
  \<^verbatim>\<open>app.py\<close> and a cache, a file system that refuses names over 255 bytes, a
  collaborator set in which every check passes, an output that can be written, and a
  server that answers every request with status 200.
\<close>

definition demo_env :: env where
  "demo_env =
     \<lparr> url = (\<lambda>t. prefix ''https://'' t),
       urlparse_path =
         (\<lambda>t. if t = ''https://example.com/scripts/app.py'' then ''/scripts/app.py'' else []),
       mkdtemp = ''/tmp/tmpk3x'',
       requests_get =
         (\<lambda>u. Inr \<lparr> status_code = 200, content = ''print(1)'', http_error_text = [] \<rparr>),
       get_command_line_as_string = ''streamlit run'',
       check_activated = None,
       newer_release_known = Inr False,
       bootstrap_run = (\<lambda>file command_line args. None),
       style = (\<lambda>text fg bold. text),
       get_cache_path = ''/home/user/.streamlit/cache'',
       open_refused = (\<lambda>p. 255 < length (last_segment p)),
       click_echo = (\<lambda>line. None) \<rparr>"

definition demo_world :: "int world" where
  "demo_world =
     \<lparr> config_options = [''server.port'' \<mapsto> (8501, ''default'')],
       files = [''app.py'' \<mapsto> ''print(1)''],
       dirs = {},
       is_running_with_streamlit = False,
       stdout = [],
       bootstrap_runs = [],
       cache_present = True \<rparr>"

definition not_found :: "string \<Rightarrow> string + response" where
  \<comment> \<open>a server that answers 404\<close>
  "not_found u =
     Inr \<lparr> status_code = 404, content = ''no such page'',
           http_error_text = ''404 Client Error: Not Found for url: '' @ u \<rparr>"

definition demo_env_404 :: env where
  "demo_env_404 = demo_env\<lparr>requests_get := not_found\<rparr>"

definition not_modified :: "string \<Rightarrow> string + response" where
  \<comment> \<open>a server that answers 304, a status that is neither a success nor one for which
      \<^verbatim>\<open>raise_for_status\<close> raises\<close>
  "not_modified u =
     Inr \<lparr> status_code = 304, content = [], http_error_text = [] \<rparr>"

definition demo_env_304 :: env where
  "demo_env_304 = demo_env\<lparr>requests_get := not_modified\<rparr>"

definition demo_env_notice :: env where
  \<comment> \<open>a newer release is known and the notice is written\<close>
  "demo_env_notice = demo_env\<lparr>newer_release_known := Inr True\<rparr>"

definition demo_env_offline :: env where
  \<comment> \<open>the lookup of the latest release fails\<close>
  "demo_env_offline = demo_env\<lparr>newer_release_known := Inl ''network unavailable''\<rparr>"

definition demo_env_closed_output :: env where
  \<comment> \<open>a newer release is known and the reader of the output has gone away\<close>
  "demo_env_closed_output =
     demo_env\<lparr>newer_release_known := Inr True,
       click_echo := (\<lambda>line. Some (OSError ''Broken pipe''))\<rparr>"

section \<open>Properties of the translator\<close>

lemma upper_char_dot: "upper_char c = CHR ''.'' \<longleftrightarrow> c = CHR ''.''"
proof
  assume h: "upper_char c = CHR ''.''"
  show "c = CHR ''.''"
  proof (cases "(97::nat) \<le> of_char c \<and> of_char c \<le> (122::nat)")
    case False
    with h show ?thesis by (simp add: upper_char_def)
  next
    case True
    then have "upper_char c = char_of (of_char c - (32::nat))"
      by (simp add: upper_char_def)
    with h have "of_char (char_of (of_char c - (32::nat)) :: char) = (of_char CHR ''.'' :: nat)"
      by simp
    moreover from True have "(of_char c - (32::nat)) mod 256 = of_char c - 32"
      by (intro mod_less) linarith
    ultimately have "of_char c - (32::nat) = 46"
      by (simp add: of_char_of)
    with True have False by linarith
    then show ?thesis ..
  qed
next
  assume "c = CHR ''.''"
  then show "upper_char c = CHR ''.''" by (simp add: upper_char_def)
qed

lemma upper_char_underscore: "upper_char CHR ''_'' = CHR ''_''"
  by (simp add: upper_char_def)

lemma upper_replace_commute:
  "upper (replace_char CHR ''.'' CHR ''_'' s) = replace_char CHR ''.'' CHR ''_'' (upper s)"
  by (induction s) (simp_all add: upper_def replace_char_def upper_char_dot upper_char_underscore)

text \<open>
  C1. For an option definition with key \<open>k\<close> the translator gives the flag name
  \<open>--k\<close> with the dots kept, the destination parameter \<open>k\<close> with every dot replaced by
  an underscore, and the environment variable \<open>STREAMLIT_CONFIG_\<close> followed by \<open>k\<close>
  upper-cased with every dot replaced by an underscore (in either order of the two
  steps). A deprecated option still yields all of these, and its help text is the
  description followed by a line holding the deprecation text and date; the help text
  of any other option is the description. The installer produces exactly these
  values for every entry of the registry.
\<close>

theorem translator_names:
  "(let r = convert_config_option_to_click_option opt in
      p_option r = ''--'' @ key opt
    \<and> p_param r = replace_char CHR ''.'' CHR ''_'' (key opt)
    \<and> CHR ''.'' \<notin> set (p_param r)
    \<and> p_envvar r = ''STREAMLIT_CONFIG_'' @ replace_char CHR ''.'' CHR ''_'' (upper (key opt))
    \<and> p_envvar r = ''STREAMLIT_CONFIG_'' @ upper (replace_char CHR ''.'' CHR ''_'' (key opt))
    \<and> p_type r = option_type opt
    \<and> (deprecated opt \<longrightarrow>
          p_description r = description opt @ [CHR 0x0A] @ '' '' @ deprecation_text opt
                              @ '' - '' @ deprecation_date opt)
    \<and> (\<not> deprecated opt \<longrightarrow> p_description r = description opt))
   \<and> (\<forall>(n, v) \<in> set registry.
          convert_config_option_to_click_option v \<in> set (configurator_options registry))
   \<and> length (configurator_options registry) = length registry"
proof -
  have installed: "\<forall>(n, v) \<in> set registry.
          convert_config_option_to_click_option v \<in> set (configurator_options registry)"
    by (force simp: configurator_options_def)
  have no_dot: "CHR ''.'' \<notin> set (replace_char CHR ''.'' CHR ''_'' (key opt))"
    by (auto simp: replace_char_def)
  have len: "length (configurator_options registry) = length registry"
    by (simp add: configurator_options_def)
  have env: "upper (replace_char CHR ''.'' CHR ''_'' (key opt))
               = replace_char CHR ''.'' CHR ''_'' (upper (key opt))"
    by (rule upper_replace_commute)
  from installed no_dot len env show ?thesis
    by (simp add: convert_config_option_to_click_option_def Let_def deprecation_suffix_def)
qed

lemma upper_server_port:
  "upper ''server_port'' = ''SERVER_PORT''" "upper ''server.port'' = ''SERVER.PORT''"
  by code_simp+

theorem translator_names_witness:
  "p_option (convert_config_option_to_click_option
      \<lparr> key = ''server.port'', description = ''The port.'', deprecated = True,
        deprecation_text = ''Gone soon'', deprecation_date = ''2019-09-01'',
        option_type = ''int'' \<rparr>) = ''--server.port''
   \<and> p_param (convert_config_option_to_click_option
      \<lparr> key = ''server.port'', description = ''The port.'', deprecated = True,
        deprecation_text = ''Gone soon'', deprecation_date = ''2019-09-01'',
        option_type = ''int'' \<rparr>) = ''server_port''
   \<and> p_envvar (convert_config_option_to_click_option
      \<lparr> key = ''server.port'', description = ''The port.'', deprecated = True,
        deprecation_text = ''Gone soon'', deprecation_date = ''2019-09-01'',
        option_type = ''int'' \<rparr>) = ''STREAMLIT_CONFIG_SERVER_PORT''
   \<and> p_description (convert_config_option_to_click_option
      \<lparr> key = ''server.port'', description = ''The port.'', deprecated = True,
        deprecation_text = ''Gone soon'', deprecation_date = ''2019-09-01'',
        option_type = ''int'' \<rparr>) = ''The port.'' @ [CHR 0x0A] @ '' Gone soon - 2019-09-01''
   \<and> convert_config_option_to_click_option
      \<lparr> key = ''server.port'', description = ''The port.'', deprecated = True,
        deprecation_text = ''Gone soon'', deprecation_date = ''2019-09-01'',
        option_type = ''int'' \<rparr>
      \<in> set (configurator_options [(''server.port'',
      \<lparr> key = ''server.port'', description = ''The port.'', deprecated = True,
        deprecation_text = ''Gone soon'', deprecation_date = ''2019-09-01'',
        option_type = ''int'' \<rparr>)])"
  using translator_names [of
      "\<lparr> key = ''server.port'', description = ''The port.'', deprecated = True,
        deprecation_text = ''Gone soon'', deprecation_date = ''2019-09-01'',
        option_type = ''int'' \<rparr>"
      "[(''server.port'',
      \<lparr> key = ''server.port'', description = ''The port.'', deprecated = True,
        deprecation_text = ''Gone soon'', deprecation_date = ''2019-09-01'',
        option_type = ''int'' \<rparr>)]"]
    upper_server_port
  by (simp add: Let_def replace_char_def)

section \<open>Round trip of the key translation\<close>

lemma replace_back_iff:
  "replace_char CHR ''_'' CHR ''.'' (replace_char CHR ''.'' CHR ''_'' s) = s
     \<longleftrightarrow> CHR ''_'' \<notin> set s"
  by (induction s) (auto simp: replace_char_def)

text \<open>
  C7, as the code has it. Deriving the destination name (every dot becomes an
  underscore) and translating it back (every underscore becomes a dot) yields the key
  again exactly when the key holds no underscore; the reverse translation cannot tell
  an underscore of the key from one that stands for a dot.
\<close>

theorem key_round_trip_iff:
  "config_option_def_key (p_param (convert_config_option_to_click_option opt)) = key opt
     \<longleftrightarrow> CHR ''_'' \<notin> set (key opt)"
  by (simp add: config_option_def_key_def convert_config_option_to_click_option_def Let_def
      replace_back_iff)

theorem key_round_trip_iff_witness:
  "config_option_def_key (p_param (convert_config_option_to_click_option
      \<lparr> key = ''server.port'', description = ''The port.'', deprecated = False,
        deprecation_text = [], deprecation_date = [], option_type = ''int'' \<rparr>))
     = ''server.port''"
  using key_round_trip_iff [of
      "\<lparr> key = ''server.port'', description = ''The port.'', deprecated = False,
        deprecation_text = [], deprecation_date = [], option_type = ''int'' \<rparr>"]
  by simp

text \<open>
  The claim as stated fails for a key with an underscore: the option \<open>a_b\<close> is
  written back to the key \<open>a.b\<close>.
\<close>

theorem key_round_trip_counterexample:
  "config_option_def_key (p_param (convert_config_option_to_click_option
      \<lparr> key = ''a_b'', description = ''An option.'', deprecated = False,
        deprecation_text = [], deprecation_date = [], option_type = ''str'' \<rparr>))
     \<noteq> key \<lparr> key = ''a_b'', description = ''An option.'', deprecated = False,
        deprecation_text = [], deprecation_date = [], option_type = ''str'' \<rparr>"
  by (simp add: config_option_def_key_def convert_config_option_to_click_option_def Let_def
      replace_char_def)

section \<open>Properties of the applier\<close>

lemma cli_writes_Nil: "cli_writes [] = []"
  by (simp add: cli_writes_def List.map_filter_simps)

lemma cli_writes_Cons_None: "cli_writes ((k, None) # kwargs) = cli_writes kwargs"
  by (simp add: cli_writes_def List.map_filter_simps)

lemma cli_writes_Cons_Some:
  "cli_writes ((k, Some v) # kwargs)
     = (config_option_def_key k, (v, ''cli call option'')) # cli_writes kwargs"
  by (simp add: cli_writes_def List.map_filter_simps)

lemma apply_as_writes:
  "apply_config_options_from_cli kwargs store = store ++ map_of (rev (cli_writes kwargs))"
proof (induction kwargs arbitrary: store)
  case Nil
  show ?case by (simp add: cli_writes_Nil)
next
  case (Cons entry kwargs)
  obtain k val where entry: "entry = (k, val)" by (cases entry)
  show ?case
  proof (cases val)
    case None
    with entry Cons.IH show ?thesis by (simp add: cli_writes_Cons_None)
  next
    case (Some v)
    let ?w = "(config_option_def_key k, (v, ''cli call option''))"
    have "apply_config_options_from_cli (entry # kwargs) store
            = apply_config_options_from_cli kwargs (store(fst ?w \<mapsto> snd ?w))"
      using entry Some by (simp add: config_set_option_def)
    also have "\<dots> = store(fst ?w \<mapsto> snd ?w) ++ map_of (rev (cli_writes kwargs))"
      by (rule Cons.IH)
    also have "\<dots> = store ++ map_of (rev (cli_writes kwargs) @ [?w])"
      by (rule ext) (simp add: map_of_append map_add_def split: option.splits)
    also have "rev (cli_writes kwargs) @ [?w] = rev (cli_writes (entry # kwargs))"
      using entry Some by (simp add: cli_writes_Cons_Some)
    finally show ?thesis .
  qed
qed

lemma set_cli_writes:
  "set (cli_writes kwargs)
     = {(config_option_def_key k, (v, ''cli call option'')) | k v. (k, Some v) \<in> set kwargs}"
proof (induction kwargs)
  case Nil
  show ?case by (simp add: cli_writes_Nil)
next
  case (Cons entry kwargs)
  obtain k val where entry: "entry = (k, val)" by (cases entry)
  show ?case
  proof (cases val)
    case None
    with entry Cons.IH show ?thesis by (auto simp: cli_writes_Cons_None)
  next
    case (Some v)
    with entry Cons.IH show ?thesis by (auto simp: cli_writes_Cons_Some)
  qed
qed

lemma def_key_inj:
  "CHR ''.'' \<notin> set a \<Longrightarrow> CHR ''.'' \<notin> set b
     \<Longrightarrow> config_option_def_key a = config_option_def_key b \<Longrightarrow> a = b"
proof (induction a arbitrary: b)
  case Nil
  then show ?case by (simp add: config_option_def_key_def replace_char_def)
next
  case (Cons c a)
  then obtain d b' where b: "b = d # b'"
    by (cases b) (auto simp: config_option_def_key_def replace_char_def)
  from Cons.prems b have "c = d"
    by (auto simp: config_option_def_key_def replace_char_def split: if_splits)
  moreover from Cons.prems b have "a = b'"
    by (intro Cons.IH) (auto simp: config_option_def_key_def replace_char_def)
  ultimately show ?case using b by simp
qed

lemma distinct_cli_writes:
  assumes "distinct (map fst kwargs)" and "\<forall>k \<in> fst ` set kwargs. CHR ''.'' \<notin> set k"
  shows "distinct (map fst (cli_writes kwargs))"
  using assms
proof (induction kwargs)
  case Nil
  show ?case by (simp add: cli_writes_Nil)
next
  case (Cons entry kwargs)
  obtain k val where entry: "entry = (k, val)" by (cases entry)
  from Cons have IH: "distinct (map fst (cli_writes kwargs))" by simp
  show ?case
  proof (cases val)
    case None
    with entry IH show ?thesis by (simp add: cli_writes_Cons_None)
  next
    case (Some v)
    have "config_option_def_key k \<notin> fst ` set (cli_writes kwargs)"
    proof
      assume "config_option_def_key k \<in> fst ` set (cli_writes kwargs)"
      then obtain k' v' where k': "(k', Some v') \<in> set kwargs"
        and eq: "config_option_def_key k = config_option_def_key k'"
        by (auto simp: set_cli_writes)
      from k' have in': "k' \<in> fst ` set kwargs" by force
      with Cons.prems(2) entry have "CHR ''.'' \<notin> set k" "CHR ''.'' \<notin> set k'" by auto
      with eq have "k = k'" by (blast intro: def_key_inj)
      with in' Cons.prems(1) entry show False by simp
    qed
    with entry Some IH show ?thesis by (simp add: cli_writes_Cons_Some)
  qed
qed

text \<open>
  C2. The applier's effect on the store is that of exactly the writes of the entries
  with a non-null value, each at its translated key with its value and the tag
  \<open>cli call option\<close>, the later write winning. A key that no non-null entry translates
  to keeps what the store held. When the entries are those of a dictionary of
  destination parameter names (distinct, without dots), the store afterwards holds,
  for every entry, the supplied value with the tag if the value is non-null, and what
  it held before if the value is null.
\<close>

theorem applier_writes:
  "apply_config_options_from_cli kwargs store = store ++ map_of (rev (cli_writes kwargs))
   \<and> (\<forall>d. (\<forall>(k, val) \<in> set kwargs. val = None \<or> config_option_def_key k \<noteq> d)
          \<longrightarrow> apply_config_options_from_cli kwargs store d = store d)
   \<and> (distinct (map fst kwargs) \<and> (\<forall>k \<in> fst ` set kwargs. CHR ''.'' \<notin> set k) \<longrightarrow>
        (\<forall>(k, val) \<in> set kwargs.
           apply_config_options_from_cli kwargs store (config_option_def_key k)
             = (case val of None \<Rightarrow> store (config_option_def_key k)
                | Some v \<Rightarrow> Some (v, ''cli call option''))))"
proof (intro conjI allI impI)
  show "apply_config_options_from_cli kwargs store = store ++ map_of (rev (cli_writes kwargs))"
    by (rule apply_as_writes)
next
  fix d
  assume "\<forall>(k, val) \<in> set kwargs. val = None \<or> config_option_def_key k \<noteq> d"
  then have "d \<notin> fst ` set (cli_writes kwargs)"
    by (auto simp: set_cli_writes)
  then have "map_of (rev (cli_writes kwargs)) d = None"
    by (simp add: map_of_eq_None_iff)
  then show "apply_config_options_from_cli kwargs store d = store d"
    by (simp add: apply_as_writes map_add_def)
next
  assume h: "distinct (map fst kwargs) \<and> (\<forall>k \<in> fst ` set kwargs. CHR ''.'' \<notin> set k)"
  then have dist: "distinct (map fst (cli_writes kwargs))"
    by (simp add: distinct_cli_writes)
  show "\<forall>(k, val) \<in> set kwargs.
           apply_config_options_from_cli kwargs store (config_option_def_key k)
             = (case val of None \<Rightarrow> store (config_option_def_key k)
                | Some v \<Rightarrow> Some (v, ''cli call option''))"
  proof (clarify)
    fix k val
    assume mem: "(k, val) \<in> set kwargs"
    show "apply_config_options_from_cli kwargs store (config_option_def_key k)
             = (case val of None \<Rightarrow> store (config_option_def_key k)
                | Some v \<Rightarrow> Some (v, ''cli call option''))"
    proof (cases val)
      case (Some v)
      with mem have "(config_option_def_key k, (v, ''cli call option'')) \<in> set (rev (cli_writes kwargs))"
        by (auto simp: set_cli_writes)
      moreover from dist have "distinct (map fst (rev (cli_writes kwargs)))"
        by (simp add: rev_map[symmetric])
      ultimately have "map_of (rev (cli_writes kwargs)) (config_option_def_key k)
                         = Some (v, ''cli call option'')"
        by (rule map_of_is_SomeI[rotated])
      with Some show ?thesis by (simp add: apply_as_writes map_add_def)
    next
      case None
      have "config_option_def_key k \<notin> fst ` set (cli_writes kwargs)"
      proof
        assume "config_option_def_key k \<in> fst ` set (cli_writes kwargs)"
        then obtain k' v' where k': "(k', Some v') \<in> set kwargs"
          and eq: "config_option_def_key k = config_option_def_key k'"
          by (auto simp: set_cli_writes)
        from k' mem h have "CHR ''.'' \<notin> set k" "CHR ''.'' \<notin> set k'" by force+
        with eq have "k = k'" by (blast intro: def_key_inj)
        with k' mem None h show False
          by (metis eq_key_imp_eq_value option.distinct(1))
      qed
      then have "map_of (rev (cli_writes kwargs)) (config_option_def_key k) = None"
        by (simp add: map_of_eq_None_iff)
      with None show ?thesis by (simp add: apply_as_writes map_add_def)
    qed
  qed
qed

theorem applier_writes_witness:
  "apply_config_options_from_cli
      [(''server_port'', Some (8080::int)), (''server_headless'', None)]
      [''server.headless'' \<mapsto> (1, ''config.toml'')] ''server.port''
     = Some (8080, ''cli call option'')
   \<and> apply_config_options_from_cli
      [(''server_port'', Some (8080::int)), (''server_headless'', None)]
      [''server.headless'' \<mapsto> (1, ''config.toml'')] ''server.headless''
     = Some (1, ''config.toml'')"
  using applier_writes [of "[(''server_port'', Some (8080::int)), (''server_headless'', None)]"
      "[''server.headless'' \<mapsto> (1, ''config.toml'')]"]
  by (simp add: config_option_def_key_def replace_char_def config_set_option_def
      cli_writes_def List.map_filter_simps)

section \<open>Properties of the run command on a local path\<close>

lemma path_exists_config [simp]:
  "path_exists (w\<lparr>config_options := c\<rparr>) p = path_exists w p"
  by (simp add: path_exists_def)

lemma main_run'_delegates:
  assumes "check_activated e = None"
    and "should_show_new_version_notice e \<longrightarrow> click_echo e (NEW_VERSION_TEXT e) = None"
  shows "bootstrap_runs (snd (main_run' e file args w))
           = bootstrap_runs w @ [(file, get_command_line_as_string e, args)]"
  using assms
  by (simp add: main_run'_def Let_def echo_or_raise_def echo_def split: option.splits)

text \<open>
  C3. For a target that is not classified as a URL: if the path exists, the run
  command is the Run Orchestrator called on that very path and the same residual
  arguments, after the overrides are applied; if it does not exist, the command fails
  with \<^verbatim>\<open>BadParameter\<close>, the message names the path, and the bootstrap runner is not
  reached.
\<close>

theorem local_target:
  assumes "\<not> url e target"
  shows "(path_exists w target \<longrightarrow>
            main_run e target args kwargs w
              = main_run' e target args
                  (w\<lparr>config_options := apply_config_options_from_cli kwargs (config_options w)\<rparr>))
       \<and> (\<not> path_exists w target \<longrightarrow>
            fst (main_run e target args kwargs w)
              = Inl (BadParameter (''File does not exist: '' @ target))
            \<and> sublist target (''File does not exist: '' @ target)
            \<and> bootstrap_runs (snd (main_run e target args kwargs w)) = bootstrap_runs w)"
proof (intro conjI impI)
  assume "path_exists w target"
  with assms show "main_run e target args kwargs w
              = main_run' e target args
                  (w\<lparr>config_options := apply_config_options_from_cli kwargs (config_options w)\<rparr>)"
    by (simp add: main_run_def Let_def)
next
  assume "\<not> path_exists w target"
  with assms show "fst (main_run e target args kwargs w)
              = Inl (BadParameter (''File does not exist: '' @ target))"
    by (simp add: main_run_def Let_def)
next
  show "sublist target (''File does not exist: '' @ target)"
    by (rule sublist_append_leftI)
next
  assume "\<not> path_exists w target"
  with assms show "bootstrap_runs (snd (main_run e target args kwargs w)) = bootstrap_runs w"
    by (simp add: main_run_def Let_def)
qed

theorem local_target_witness:
  "main_run demo_env ''app.py'' [] [] demo_world
     = main_run' demo_env ''app.py'' []
         (demo_world\<lparr>config_options := apply_config_options_from_cli [] (config_options demo_world)\<rparr>)
   \<and> fst (main_run demo_env ''missing.py'' [] [] demo_world)
     = Inl (BadParameter ''File does not exist: missing.py'')"
proof -
  have u: "\<not> url demo_env ''app.py''" "\<not> url demo_env ''missing.py''"
    by (simp_all add: demo_env_def)
  have p: "path_exists demo_world ''app.py''" "\<not> path_exists demo_world ''missing.py''"
    by (simp_all add: path_exists_def demo_world_def)
  from local_target [OF u(1), of demo_world "[]" "[]"] local_target [OF u(2), of demo_world "[]" "[]"] p
  show ?thesis by simp
qed

text \<open>
  C10. For a target that is not a URL and does not exist, the run command ends in
  \<^verbatim>\<open>BadParameter\<close> with the overrides already applied: the state it leaves is the
  initial one with the configuration store overwritten by the writes of the non-null
  entries, so every supplied key is then present with the tag \<open>cli call option\<close>.
\<close>

theorem missing_path_not_atomic:
  assumes "\<not> url e target" and "\<not> path_exists w target"
  shows "main_run e target args kwargs w
           = (Inl (BadParameter (''File does not exist: '' @ target)),
              w\<lparr>config_options := apply_config_options_from_cli kwargs (config_options w)\<rparr>)
         \<and> config_options (snd (main_run e target args kwargs w))
             = config_options w ++ map_of (rev (cli_writes kwargs))
         \<and> (\<forall>(k, val) \<in> set kwargs. \<forall>v. val = Some v \<longrightarrow>
              (\<exists>x. config_options (snd (main_run e target args kwargs w)) (config_option_def_key k) = Some x
                    \<and> snd x = ''cli call option''))"
proof -
  have run: "main_run e target args kwargs w
           = (Inl (BadParameter (''File does not exist: '' @ target)),
              w\<lparr>config_options := apply_config_options_from_cli kwargs (config_options w)\<rparr>)"
    using assms by (simp add: main_run_def Let_def)
  have tagged: "\<And>k v. (k, Some v) \<in> set kwargs \<Longrightarrow>
      \<exists>x. (config_options w ++ map_of (rev (cli_writes kwargs))) (config_option_def_key k) = Some x
            \<and> snd x = ''cli call option''"
  proof -
    fix k v assume "(k, Some v) \<in> set kwargs"
    then have "config_option_def_key k \<in> fst ` set (rev (cli_writes kwargs))"
      by (force simp: set_cli_writes)
    then obtain x where x: "map_of (rev (cli_writes kwargs)) (config_option_def_key k) = Some x"
      by (metis map_of_eq_None_iff not_None_eq)
    then have "(config_option_def_key k, x) \<in> set (cli_writes kwargs)"
      by (auto dest: map_of_SomeD)
    then have "snd x = ''cli call option''" by (auto simp: set_cli_writes)
    with x show "\<exists>x. (config_options w ++ map_of (rev (cli_writes kwargs))) (config_option_def_key k) = Some x
            \<and> snd x = ''cli call option''"
      by (simp add: map_add_def)
  qed
  from run tagged show ?thesis
    by (auto simp: apply_as_writes)
qed

theorem missing_path_not_atomic_witness:
  "fst (main_run demo_env ''missing.py'' [] [(''server_port'', Some 8080)] demo_world)
     = Inl (BadParameter ''File does not exist: missing.py'')
   \<and> config_options (snd (main_run demo_env ''missing.py'' [] [(''server_port'', Some 8080)] demo_world))
        ''server.port'' = Some (8080, ''cli call option'')
   \<and> config_options demo_world ''server.port'' = Some (8501, ''default'')"
proof -
  have u: "\<not> url demo_env ''missing.py''"
    by (simp add: demo_env_def)
  have p: "\<not> path_exists demo_world ''missing.py''"
    by (simp add: path_exists_def demo_world_def)
  from missing_path_not_atomic [OF u p, of "[]" "[(''server_port'', Some 8080)]"]
  show ?thesis
    by (simp add: demo_world_def config_set_option_def config_option_def_key_def replace_char_def)
qed

section \<open>Properties of the run command on a URL\<close>

lemma last_segment_no_slash: "CHR ''/'' \<notin> set (last_segment s)"
  by (auto simp: last_segment_def dest: set_takeWhileD)

lemma last_segment_decomp:
  "\<exists>pre. s = pre @ last_segment s \<and> (pre = [] \<or> last pre = CHR ''/'')"
proof -
  let ?P = "\<lambda>c. c \<noteq> CHR ''/''"
  let ?pre = "rev (dropWhile ?P (rev s))"
  have "rev (takeWhile ?P (rev s) @ dropWhile ?P (rev s)) = s"
    by (simp only: takeWhile_dropWhile_id rev_rev_ident)
  then have split: "s = ?pre @ last_segment s"
    unfolding rev_append last_segment_def by (rule sym)
  have "?pre = [] \<or> last ?pre = CHR ''/''"
  proof (cases "dropWhile ?P (rev s)")
    case Nil
    then show ?thesis by simp
  next
    case (Cons c cs)
    then have "dropWhile ?P (rev s) \<noteq> []" by simp
    then have "\<not> ?P (hd (dropWhile ?P (rev s)))" by (rule hd_dropWhile)
    with Cons have "c = CHR ''/''" by simp
    with Cons show ?thesis by (simp add: last_rev)
  qed
  with split show ?thesis by (intro exI[of _ ?pre] conjI)
qed

lemma last_segment_append:
  "CHR ''/'' \<notin> set name \<Longrightarrow> last_segment (d @ ''/'' @ name) = name"
proof -
  assume n: "CHR ''/'' \<notin> set name"
  have "takeWhile (\<lambda>c. c \<noteq> CHR ''/'') (rev name @ CHR ''/'' # rev d)
          = rev name @ takeWhile (\<lambda>c. c \<noteq> CHR ''/'') (CHR ''/'' # rev d)"
    using n by (intro takeWhile_append2) auto
  then show ?thesis by (simp add: last_segment_def)
qed

lemma path_join_proper:
  "proper_temp_name d \<Longrightarrow> CHR ''/'' \<notin> set name \<Longrightarrow> path_join d name = d @ ''/'' @ name"
proof -
  assume p: "proper_temp_name d" and n: "CHR ''/'' \<notin> set name"
  from n have "\<not> (name \<noteq> [] \<and> hd name = CHR ''/'')"
    by (cases name) auto
  with p show ?thesis
    by (simp add: path_join_def proper_temp_name_def)
qed

lemma inside_child: "inside d (d @ ''/'' @ name)"
  by (simp add: inside_def)

lemma inside_not_self: "\<not> inside d d"
proof
  assume "inside d d"
  then have "length (d @ ''/'') \<le> length d"
    unfolding inside_def by (rule prefix_length_le)
  then show False by simp
qed

lemma example_name: "last_segment (strip_slashes ''/scripts/app.py'') = ''app.py''"
  by code_simp


lemma script_path_proper:
  assumes "proper_temp_name d"
  shows "script_path_for e target d
           = d @ ''/'' @ last_segment (strip_slashes (urlparse_path e target))"
  using assms by (simp add: script_path_for_def Let_def path_join_proper last_segment_no_slash)

lemma script_path_inside:
  assumes "proper_temp_name d"
  shows "inside d (script_path_for e target d)"
  unfolding script_path_proper [OF assms] by (rule inside_child)

lemma script_path_not_dir: "proper_temp_name d \<Longrightarrow> script_path_for e target d \<noteq> d"
  using inside_not_self [of d] script_path_inside [of d e target] by auto

lemma main_run'_frame:
  "files (snd (main_run' e file args w)) = files w"
  "dirs (snd (main_run' e file args w)) = dirs w"
  "config_options (snd (main_run' e file args w)) = config_options w"
  by (simp_all add: main_run'_def Let_def echo_or_raise_def echo_def
      split: option.splits sum.splits)

lemma download_remote_frame:
  "q \<noteq> p \<Longrightarrow> files (snd (download_remote e p u w)) q = files w q"
  "dirs (snd (download_remote e p u w)) = dirs w"
  "bootstrap_runs (snd (download_remote e p u w)) = bootstrap_runs w"
  "is_running_with_streamlit (snd (download_remote e p u w)) = is_running_with_streamlit w"
  by (simp_all add: download_remote_def open_wb_def fp_write_def
      split: option.splits sum.splits prod.splits)

lemma with_body_frame:
  "q \<noteq> script_path_for e target d \<Longrightarrow> files (snd (with_body e target args d w)) q = files w q"
  "dirs (snd (with_body e target args d w)) = dirs w"
proof -
  let ?p = "script_path_for e target d"
  obtain r w1 where dl: "download_remote e ?p target w = (r, w1)"
    by (cases "download_remote e ?p target w")
  from download_remote_frame(2) [of e ?p target w] dl have d1: "dirs w1 = dirs w" by simp
  have f1: "q \<noteq> ?p \<Longrightarrow> files w1 q = files w q"
    using download_remote_frame(1) [of q ?p e target w] dl by simp
  show "dirs (snd (with_body e target args d w)) = dirs w"
    using dl d1 by (cases r) (simp_all add: with_body_def Let_def main_run'_frame)
  show "q \<noteq> ?p \<Longrightarrow> files (snd (with_body e target args d w)) q = files w q"
    using dl f1 by (cases r) (simp_all add: with_body_def Let_def main_run'_frame)
qed

lemma main_run_url:
  assumes "url e target" and "\<not> path_exists w (mkdtemp e)"
  shows "main_run e target args kwargs w
           = (fst (with_body e target args (mkdtemp e)
                    (w\<lparr>config_options := apply_config_options_from_cli kwargs (config_options w),
                       dirs := insert (mkdtemp e) (dirs w)\<rparr>)),
              exit_temporary_directory (mkdtemp e)
                (snd (with_body e target args (mkdtemp e)
                    (w\<lparr>config_options := apply_config_options_from_cli kwargs (config_options w),
                       dirs := insert (mkdtemp e) (dirs w)\<rparr>))))"
  using assms
  by (simp add: main_run_def Let_def enter_temporary_directory_def split: prod.splits)

lemma exit_removes:
  "d \<notin> dirs (exit_temporary_directory d w)"
  "inside d p \<Longrightarrow> \<not> path_exists (exit_temporary_directory d w) p"
  "\<not> inside d p \<Longrightarrow> files (exit_temporary_directory d w) p = files w p"
  by (auto simp: exit_temporary_directory_def path_exists_def)

text \<open>
  C6. For a URL target for which the temporary directory was acquired, the state
  the run command leaves, whatever the outcome of the fetch and of the Run
  Orchestrator, no longer holds the directory, nor anything under it; with the name
  \<^verbatim>\<open>mkdtemp\<close> returns (non-empty, no trailing slash) nothing exists at the directory's
  path and nothing at the path of the downloaded script.
\<close>

theorem temporary_directory_removed:
  assumes "url e target" and "\<not> path_exists w (mkdtemp e)"
  shows "mkdtemp e \<notin> dirs (snd (main_run e target args kwargs w))
       \<and> (\<forall>p. inside (mkdtemp e) p \<longrightarrow> \<not> path_exists (snd (main_run e target args kwargs w)) p)
       \<and> (proper_temp_name (mkdtemp e) \<longrightarrow>
            \<not> path_exists (snd (main_run e target args kwargs w)) (mkdtemp e)
            \<and> \<not> path_exists (snd (main_run e target args kwargs w))
                  (script_path_for e target (mkdtemp e)))"
proof -
  let ?d = "mkdtemp e"
  let ?w2 = "w\<lparr>config_options := apply_config_options_from_cli kwargs (config_options w),
                dirs := insert ?d (dirs w)\<rparr>"
  let ?w3 = "snd (with_body e target args ?d ?w2)"
  have run: "snd (main_run e target args kwargs w) = exit_temporary_directory ?d ?w3"
    using main_run_url [OF assms] by simp
  have a: "?d \<notin> dirs (exit_temporary_directory ?d ?w3)" by (rule exit_removes)
  have b: "\<forall>p. inside ?d p \<longrightarrow> \<not> path_exists (exit_temporary_directory ?d ?w3) p"
    by (simp add: exit_removes)
  have c: "\<not> path_exists (exit_temporary_directory ?d ?w3) ?d
           \<and> \<not> path_exists (exit_temporary_directory ?d ?w3) (script_path_for e target ?d)"
    if proper: "proper_temp_name ?d"
  proof
    from proper have ne: "?d \<noteq> script_path_for e target ?d"
      using script_path_not_dir [of ?d e target] by auto
    have "files (exit_temporary_directory ?d ?w3) ?d = files ?w3 ?d"
      by (simp add: exit_removes inside_not_self)
    also have "\<dots> = files ?w2 ?d" using ne by (rule with_body_frame)
    also have "\<dots> = None" using assms(2) by (auto simp: path_exists_def)
    finally show "\<not> path_exists (exit_temporary_directory ?d ?w3) ?d"
      using a by (auto simp: path_exists_def)
    from proper show "\<not> path_exists (exit_temporary_directory ?d ?w3) (script_path_for e target ?d)"
      by (simp add: exit_removes script_path_inside)
  qed
  from a b c show ?thesis unfolding run by blast
qed

lemma demo_remote:
  "url demo_env ''https://example.com/scripts/app.py''"
  "mkdtemp demo_env = ''/tmp/tmpk3x''"
  "\<not> path_exists demo_world ''/tmp/tmpk3x''"
  "proper_temp_name ''/tmp/tmpk3x''"
  "script_path_for demo_env ''https://example.com/scripts/app.py'' ''/tmp/tmpk3x''
     = ''/tmp/tmpk3x/app.py''"
proof -
  show "url demo_env ''https://example.com/scripts/app.py''"
    by (simp add: demo_env_def)
  show "mkdtemp demo_env = ''/tmp/tmpk3x''"
    by (simp add: demo_env_def)
  show "\<not> path_exists demo_world ''/tmp/tmpk3x''"
    by (simp add: path_exists_def demo_world_def)
  show "proper_temp_name ''/tmp/tmpk3x''"
    by (simp add: proper_temp_name_def)
  show "script_path_for demo_env ''https://example.com/scripts/app.py'' ''/tmp/tmpk3x''
     = ''/tmp/tmpk3x/app.py''"
    by code_simp
qed

theorem temporary_directory_removed_witness:
  "\<not> path_exists (snd (main_run demo_env ''https://example.com/scripts/app.py'' [] [] demo_world))
       ''/tmp/tmpk3x''
   \<and> \<not> path_exists (snd (main_run demo_env ''https://example.com/scripts/app.py'' [] [] demo_world))
       ''/tmp/tmpk3x/app.py''"
proof -
  have p: "\<not> path_exists demo_world (mkdtemp demo_env)"
    by (simp add: demo_remote)
  from temporary_directory_removed [OF demo_remote(1) p, of "[]" "[]"]
  show ?thesis by (simp add: demo_remote)
qed

section \<open>Properties of the Remote Fetcher\<close>

lemma sublist_fetch_message:
  "sublist u (fetch_error_message u msg)" "sublist msg (fetch_error_message u msg)"
proof -
  have "fetch_error_message u msg = ''Unable to fetch '' @ u @ (''.'' @ [CHR 0x0A] @ msg)"
    by (simp add: fetch_error_message_def)
  then show "sublist u (fetch_error_message u msg)"
    by (simp only: sublist_appendI)
  have "fetch_error_message u msg = (''Unable to fetch '' @ u @ ''.'' @ [CHR 0x0A]) @ msg"
    by (simp add: fetch_error_message_def)
  then show "sublist msg (fetch_error_message u msg)"
    by (simp only: sublist_append_leftI)
qed

lemma download_remote_fails:
  assumes "requests_get e u = Inl msg
           \<or> (requests_get e u = Inr resp \<and> 400 \<le> status_code resp \<and> status_code resp < 600
                \<and> http_error_text resp = msg)"
  shows "\<not> names_directory w p \<Longrightarrow> \<not> open_refused e p \<Longrightarrow>
           download_remote e p u w
             = (Inl (BadParameter (fetch_error_message u msg)), w\<lparr>files := (files w)(p \<mapsto> [])\<rparr>)"
    and "isl (fst (download_remote e p u w))"
  using assms
  by (auto simp: download_remote_def open_wb_def raise_for_status_def)

lemma with_body_fails:
  assumes "isl (fst (download_remote e (script_path_for e target d) target w))"
  shows "with_body e target args d w = download_remote e (script_path_for e target d) target w"
  using assms
  by (cases "download_remote e (script_path_for e target d) target w")
     (auto simp: with_body_def Let_def split: sum.splits)

lemma exit_frame [simp]:
  "bootstrap_runs (exit_temporary_directory d w) = bootstrap_runs w"
  "is_running_with_streamlit (exit_temporary_directory d w) = is_running_with_streamlit w"
  "config_options (exit_temporary_directory d w) = config_options w"
  "stdout (exit_temporary_directory d w) = stdout w"
  by (simp_all add: exit_temporary_directory_def)

lemma names_directory_frame [simp]:
  "names_directory (w\<lparr>config_options := c\<rparr>) p = names_directory w p"
  by (simp add: names_directory_def)

lemma download_remote_refused:
  "names_directory w p \<or> open_refused e p \<Longrightarrow> download_remote e p u w = (Inl (OSError p), w)"
  by (simp add: download_remote_def open_wb_def)

text \<open>
  C5, as the code has it. When the request raises a \<^verbatim>\<open>RequestException\<close> with text
  \<open>msg\<close>, or answers with an error status, 4xx or 5xx, for which \<^verbatim>\<open>raise_for_status\<close>
  raises with text \<open>msg\<close>, the fetcher, having opened the destination, ends in
  \<^verbatim>\<open>BadParameter\<close> with the message \<open>Unable to fetch <url>.\<close>, a newline and \<open>msg\<close>; the
  message holds both the URL and \<open>msg\<close>. Where the destination cannot be opened the
  fetcher ends in the \<^verbatim>\<open>OSError\<close> of \<^verbatim>\<open>open\<close> and makes no request. The run command on
  such a URL ends in an error without reaching the Run Orchestrator: no bootstrap run
  is recorded and the running flag is not set; and it ends in that same
  \<^verbatim>\<open>BadParameter\<close> when the directory was acquired and the script path could be opened.
\<close>

theorem fetch_failure_is_bad_parameter:
  assumes "requests_get e u = Inl msg
           \<or> (requests_get e u = Inr resp \<and> 400 \<le> status_code resp \<and> status_code resp < 600
                \<and> http_error_text resp = msg)"
  shows "(\<not> names_directory w p \<and> \<not> open_refused e p \<longrightarrow>
            download_remote e p u w
              = (Inl (BadParameter (fetch_error_message u msg)), w\<lparr>files := (files w)(p \<mapsto> [])\<rparr>))
       \<and> (names_directory w p \<or> open_refused e p \<longrightarrow>
            download_remote e p u w = (Inl (OSError p), w))
       \<and> sublist u (fetch_error_message u msg)
       \<and> sublist msg (fetch_error_message u msg)
       \<and> (url e u \<longrightarrow>
            isl (fst (main_run e u args kwargs w))
            \<and> bootstrap_runs (snd (main_run e u args kwargs w)) = bootstrap_runs w
            \<and> is_running_with_streamlit (snd (main_run e u args kwargs w))
                 = is_running_with_streamlit w)
       \<and> (url e u \<and> \<not> path_exists w (mkdtemp e)
            \<and> \<not> names_directory (w\<lparr>dirs := insert (mkdtemp e) (dirs w)\<rparr>)
                   (script_path_for e u (mkdtemp e))
            \<and> \<not> open_refused e (script_path_for e u (mkdtemp e)) \<longrightarrow>
            fst (main_run e u args kwargs w) = Inl (BadParameter (fetch_error_message u msg)))"
proof (intro conjI impI)
  assume "\<not> names_directory w p \<and> \<not> open_refused e p"
  then have "\<not> names_directory w p" and "\<not> open_refused e p" by simp_all
  then show "download_remote e p u w
              = (Inl (BadParameter (fetch_error_message u msg)), w\<lparr>files := (files w)(p \<mapsto> [])\<rparr>)"
    by (rule download_remote_fails(1) [OF assms])
next
  assume "names_directory w p \<or> open_refused e p"
  then show "download_remote e p u w = (Inl (OSError p), w)"
    by (rule download_remote_refused)
next
  show "sublist u (fetch_error_message u msg)" by (rule sublist_fetch_message)
  show "sublist msg (fetch_error_message u msg)" by (rule sublist_fetch_message)
next
  let ?w1 = "w\<lparr>config_options := apply_config_options_from_cli kwargs (config_options w)\<rparr>"
  let ?d = "mkdtemp e"
  let ?w2 = "?w1\<lparr>dirs := insert ?d (dirs w)\<rparr>"
  let ?dl = "download_remote e (script_path_for e u ?d) u ?w2"
  have dlf: "isl (fst ?dl)"
    by (rule download_remote_fails(2) [OF assms])
  have body: "with_body e u args ?d ?w2 = ?dl"
    using dlf by (rule with_body_fails)
  have run: "main_run e u args kwargs w
               = (if path_exists w ?d then (Inl (OSError ?d), ?w1)
                  else (fst ?dl, exit_temporary_directory ?d (snd ?dl)))" if "url e u"
    using that body
    by (simp add: main_run_def Let_def enter_temporary_directory_def split: prod.splits)
  {
    assume u: "url e u"
    show "isl (fst (main_run e u args kwargs w))"
      using run [OF u] dlf by simp
    show "bootstrap_runs (snd (main_run e u args kwargs w)) = bootstrap_runs w"
      using run [OF u] by (simp add: download_remote_frame)
    show "is_running_with_streamlit (snd (main_run e u args kwargs w)) = is_running_with_streamlit w"
      using run [OF u] by (simp add: download_remote_frame)
  }
  {
    assume h: "url e u \<and> \<not> path_exists w ?d
            \<and> \<not> names_directory (w\<lparr>dirs := insert ?d (dirs w)\<rparr>) (script_path_for e u ?d)
            \<and> \<not> open_refused e (script_path_for e u ?d)"
    then have "\<not> names_directory ?w2 (script_path_for e u ?d)"
      and "\<not> open_refused e (script_path_for e u ?d)"
      by (simp_all add: names_directory_def)
    then have "?dl = (Inl (BadParameter (fetch_error_message u msg)),
                      ?w2\<lparr>files := (files ?w2)(script_path_for e u ?d \<mapsto> [])\<rparr>)"
      by (rule download_remote_fails(1) [OF assms])
    with h run show "fst (main_run e u args kwargs w) = Inl (BadParameter (fetch_error_message u msg))"
      by simp
  }
qed

lemma demo_404:
  "url demo_env_404 ''https://example.com/scripts/app.py''"
  "mkdtemp demo_env_404 = ''/tmp/tmpk3x''"
  "requests_get demo_env_404 ''https://example.com/scripts/app.py''
     = Inr \<lparr> status_code = 404, content = ''no such page'',
             http_error_text =
               ''404 Client Error: Not Found for url: https://example.com/scripts/app.py'' \<rparr>"
  "script_path_for demo_env_404 ''https://example.com/scripts/app.py'' ''/tmp/tmpk3x''
     = ''/tmp/tmpk3x/app.py''"
  "last_segment ''/tmp/tmpk3x/app.py'' = ''app.py''"
  "\<not> open_refused demo_env_404 ''/tmp/tmpk3x/app.py''"
proof -
  show "url demo_env_404 ''https://example.com/scripts/app.py''"
    by (simp add: demo_env_404_def demo_env_def)
  show "mkdtemp demo_env_404 = ''/tmp/tmpk3x''"
    by (simp add: demo_env_404_def demo_env_def)
  show "requests_get demo_env_404 ''https://example.com/scripts/app.py''
     = Inr \<lparr> status_code = 404, content = ''no such page'',
             http_error_text =
               ''404 Client Error: Not Found for url: https://example.com/scripts/app.py'' \<rparr>"
    by (simp add: demo_env_404_def not_found_def)
  show "script_path_for demo_env_404 ''https://example.com/scripts/app.py'' ''/tmp/tmpk3x''
     = ''/tmp/tmpk3x/app.py''"
    by code_simp
  show ls: "last_segment ''/tmp/tmpk3x/app.py'' = ''app.py''"
    by code_simp
  show "\<not> open_refused demo_env_404 ''/tmp/tmpk3x/app.py''"
    by (simp add: demo_env_404_def demo_env_def ls)
qed

theorem fetch_failure_is_bad_parameter_witness:
  "fst (main_run demo_env_404 ''https://example.com/scripts/app.py'' [] [] demo_world)
     = Inl (BadParameter (fetch_error_message ''https://example.com/scripts/app.py''
         ''404 Client Error: Not Found for url: https://example.com/scripts/app.py''))
   \<and> bootstrap_runs (snd (main_run demo_env_404 ''https://example.com/scripts/app.py'' [] []
         demo_world)) = []"
proof -
  have h: "requests_get demo_env_404 ''https://example.com/scripts/app.py''
             = Inl ''404 Client Error: Not Found for url: https://example.com/scripts/app.py''
           \<or> (requests_get demo_env_404 ''https://example.com/scripts/app.py''
                 = Inr \<lparr> status_code = 404, content = ''no such page'',
                     http_error_text =
                       ''404 Client Error: Not Found for url: https://example.com/scripts/app.py'' \<rparr>
                \<and> 400 \<le> status_code \<lparr> status_code = 404, content = ''no such page'',
                     http_error_text =
                       ''404 Client Error: Not Found for url: https://example.com/scripts/app.py'' \<rparr>
                \<and> status_code \<lparr> status_code = 404, content = ''no such page'',
                     http_error_text =
                       ''404 Client Error: Not Found for url: https://example.com/scripts/app.py'' \<rparr>
                     < 600
                \<and> http_error_text \<lparr> status_code = 404, content = ''no such page'',
                     http_error_text =
                       ''404 Client Error: Not Found for url: https://example.com/scripts/app.py'' \<rparr>
                     = ''404 Client Error: Not Found for url: https://example.com/scripts/app.py'')"
    by (simp add: demo_404(3))
  have p: "\<not> path_exists demo_world ''/tmp/tmpk3x''"
    by (simp add: path_exists_def demo_world_def)
  have n: "\<not> names_directory (demo_world\<lparr>dirs := insert ''/tmp/tmpk3x'' (dirs demo_world)\<rparr>)
               ''/tmp/tmpk3x/app.py''"
    by (simp add: names_directory_def demo_404(5) demo_world_def)
  have b: "bootstrap_runs demo_world = []"
    by (simp add: demo_world_def)
  from fetch_failure_is_bad_parameter [OF h, of demo_world "[]" "[]" "[]"] p n b
  show ?thesis by (simp add: demo_404)
qed

text \<open>
  The claim as stated fails for a status that is not a success and not an error
  status either: \<^verbatim>\<open>raise_for_status\<close> raises for 4xx and 5xx only. A response with
  status 304 is written to the file, the fetcher returns normally, and the run command
  passes the script on to the Run Orchestrator.
\<close>

theorem fetch_failure_counterexample:
  "map_sum id status_code (requests_get demo_env_304 ''https://example.com/scripts/app.py'')
     = Inr 304
   \<and> fst (download_remote demo_env_304 ''/tmp/tmpk3x/app.py''
         ''https://example.com/scripts/app.py''
         (demo_world\<lparr>dirs := insert ''/tmp/tmpk3x'' (dirs demo_world)\<rparr>)) = Inr ()
   \<and> fst (main_run demo_env_304 ''https://example.com/scripts/app.py'' [] [] demo_world) = Inr ()
   \<and> bootstrap_runs (snd (main_run demo_env_304 ''https://example.com/scripts/app.py'' [] []
         demo_world)) = [(''/tmp/tmpk3x/app.py'', ''streamlit run'', [])]"
proof -
  let ?u = "''https://example.com/scripts/app.py''"
  let ?sp = "''/tmp/tmpk3x/app.py''"
  have get: "requests_get demo_env_304 ?u
               = Inr \<lparr> status_code = 304, content = [], http_error_text = [] \<rparr>"
    by (simp add: demo_env_304_def not_modified_def)
  have u: "url demo_env_304 ?u" and d: "mkdtemp demo_env_304 = ''/tmp/tmpk3x''"
    by (simp_all add: demo_env_304_def demo_env_def)
  have sp: "script_path_for demo_env_304 ?u ''/tmp/tmpk3x'' = ?sp"
    by code_simp
  have nr: "\<not> open_refused demo_env_304 ?sp"
    by (simp add: demo_env_304_def demo_env_def demo_404(5))
  have nd: "\<And>c. \<not> names_directory
               (demo_world\<lparr>config_options := c, dirs := insert ''/tmp/tmpk3x'' (dirs demo_world)\<rparr>) ?sp"
    by (simp add: names_directory_def demo_404(5) demo_world_def)
  have dl: "\<And>w :: int world. \<not> names_directory w ?sp \<Longrightarrow>
              download_remote demo_env_304 ?sp ?u w = (Inr (), w\<lparr>files := (files w)(?sp \<mapsto> [])\<rparr>)"
    using nr get
    by (simp add: download_remote_def open_wb_def raise_for_status_def fp_write_def)
  have run: "\<And>w :: int world. main_run' demo_env_304 ?sp [] w
               = (Inr (), w\<lparr>is_running_with_streamlit := True,
                    bootstrap_runs := bootstrap_runs w @ [(?sp, ''streamlit run'', [])]\<rparr>)"
    by (simp add: main_run'_def Let_def should_show_new_version_notice_def demo_env_304_def
          demo_env_def)
  have p: "\<not> path_exists demo_world (mkdtemp demo_env_304)"
    by (simp add: d demo_remote)
  have b: "bootstrap_runs demo_world = []" by (simp add: demo_world_def)
  have c1: "map_sum id status_code (requests_get demo_env_304 ?u) = Inr 304"
    by (simp add: get)
  have c2: "fst (download_remote demo_env_304 ?sp ?u
               (demo_world\<lparr>dirs := insert ''/tmp/tmpk3x'' (dirs demo_world)\<rparr>)) = Inr ()"
    using dl [of "demo_world\<lparr>dirs := insert ''/tmp/tmpk3x'' (dirs demo_world)\<rparr>"]
    by (simp add: names_directory_def demo_404(5) demo_world_def)
  let ?w2 = "demo_world\<lparr>config_options := apply_config_options_from_cli [] (config_options demo_world),
                 dirs := insert ''/tmp/tmpk3x'' (dirs demo_world)\<rparr>"
  have "with_body demo_env_304 ?u [] ''/tmp/tmpk3x'' ?w2
          = (case download_remote demo_env_304 ?sp ?u ?w2 of
               (Inl err, w1) \<Rightarrow> (Inl err, w1)
             | (Inr _, w1) \<Rightarrow> main_run' demo_env_304 ?sp [] w1)"
    unfolding with_body_def Let_def sp by (rule refl)
  also have "\<dots> = main_run' demo_env_304 ?sp [] (?w2\<lparr>files := (files ?w2)(?sp \<mapsto> [])\<rparr>)"
    unfolding dl [OF nd] by simp
  finally have body: "with_body demo_env_304 ?u [] ''/tmp/tmpk3x'' ?w2
          = (Inr (), ?w2\<lparr>files := (files ?w2)(?sp \<mapsto> []),
               is_running_with_streamlit := True,
               bootstrap_runs := bootstrap_runs ?w2 @ [(?sp, ''streamlit run'', [])]\<rparr>)"
    unfolding run by simp
  have m: "main_run demo_env_304 ?u [] [] demo_world
             = (fst (with_body demo_env_304 ?u [] ''/tmp/tmpk3x'' ?w2),
                exit_temporary_directory ''/tmp/tmpk3x''
                  (snd (with_body demo_env_304 ?u [] ''/tmp/tmpk3x'' ?w2)))"
    using main_run_url [OF u p, of "[]" "[]"] unfolding d by (rule trans) (rule refl)
  have c3: "fst (main_run demo_env_304 ?u [] [] demo_world) = Inr ()"
    unfolding m body by simp
  have c4: "bootstrap_runs (snd (main_run demo_env_304 ?u [] [] demo_world))
               = [(?sp, ''streamlit run'', [])]"
    unfolding m body by (simp add: exit_temporary_directory_def b)
  from c1 c2 c3 c4 show ?thesis by (intro conjI)
qed

section \<open>The downloaded script\<close>

lemma download_remote_ok:
  assumes "\<not> names_directory w p" and "\<not> open_refused e p"
    and "requests_get e u = Inr resp"
    and "\<not> (400 \<le> status_code resp \<and> status_code resp < 600)"
  shows "download_remote e p u w = (Inr (), w\<lparr>files := (files w)(p \<mapsto> content resp)\<rparr>)"
  using assms
  by (simp add: download_remote_def open_wb_def raise_for_status_def fp_write_def)

text \<open>
  C4, as the code has it. For a target classified as a URL, a temporary directory
  that is new, and a file name derived from the URL's path (slashes stripped, then
  what follows the last slash) that can be opened as a file: it is not empty, not
  \<^verbatim>\<open>.\<close> and not \<^verbatim>\<open>..\<close>, and the operating system does not refuse the script path (as
  it does for a name that is too long). The name holds no slash and ends the stripped
  path after its last slash; the script path is that name directly under the
  directory; after a successful fetch the file at that path holds exactly the bytes
  of the response; and the run command is the Run Orchestrator on that path, followed
  by the removal of the directory.
\<close>

theorem remote_script_downloaded:
  assumes u: "url e target"
    and fresh: "fresh_directory w (mkdtemp e)"
    and name: "name = last_segment (strip_slashes (urlparse_path e target))"
    and proper: "name \<noteq> [] \<and> name \<noteq> ''.'' \<and> name \<noteq> ''..''"
    and accepted: "\<not> open_refused e (mkdtemp e @ ''/'' @ name)"
    and get: "requests_get e target = Inr resp"
    and ok: "\<not> (400 \<le> status_code resp \<and> status_code resp < 600)"
  shows "CHR ''/'' \<notin> set name
       \<and> (\<exists>pre. strip_slashes (urlparse_path e target) = pre @ name
                  \<and> (pre = [] \<or> last pre = CHR ''/''))
       \<and> script_path_for e target (mkdtemp e) = mkdtemp e @ ''/'' @ name
       \<and> inside (mkdtemp e) (script_path_for e target (mkdtemp e))
       \<and> \<not> path_exists w (mkdtemp e)
       \<and> download_remote e (script_path_for e target (mkdtemp e)) target
            (w\<lparr>config_options := apply_config_options_from_cli kwargs (config_options w),
               dirs := insert (mkdtemp e) (dirs w)\<rparr>)
           = (Inr (),
              w\<lparr>config_options := apply_config_options_from_cli kwargs (config_options w),
                dirs := insert (mkdtemp e) (dirs w),
                files := (files w)(script_path_for e target (mkdtemp e) \<mapsto> content resp)\<rparr>)
       \<and> main_run e target args kwargs w
           = (fst (main_run' e (script_path_for e target (mkdtemp e)) args
                (w\<lparr>config_options := apply_config_options_from_cli kwargs (config_options w),
                   dirs := insert (mkdtemp e) (dirs w),
                   files := (files w)(script_path_for e target (mkdtemp e) \<mapsto> content resp)\<rparr>)),
              exit_temporary_directory (mkdtemp e)
                (snd (main_run' e (script_path_for e target (mkdtemp e)) args
                (w\<lparr>config_options := apply_config_options_from_cli kwargs (config_options w),
                   dirs := insert (mkdtemp e) (dirs w),
                   files := (files w)(script_path_for e target (mkdtemp e) \<mapsto> content resp)\<rparr>))))"
proof -
  let ?d = "mkdtemp e"
  let ?sp = "script_path_for e target ?d"
  let ?w2 = "w\<lparr>config_options := apply_config_options_from_cli kwargs (config_options w),
               dirs := insert ?d (dirs w)\<rparr>"
  let ?w3 = "w\<lparr>config_options := apply_config_options_from_cli kwargs (config_options w),
                dirs := insert ?d (dirs w),
                files := (files w)(?sp \<mapsto> content resp)\<rparr>"
  from fresh have pd: "proper_temp_name ?d" and ne: "\<not> path_exists w ?d"
    and nodir: "\<forall>p \<in> dirs w. \<not> inside ?d p"
    by (simp_all add: fresh_directory_def)
  have c1: "CHR ''/'' \<notin> set name" unfolding name by (rule last_segment_no_slash)
  have c2: "\<exists>pre. strip_slashes (urlparse_path e target) = pre @ name
                  \<and> (pre = [] \<or> last pre = CHR ''/'')"
    unfolding name by (rule last_segment_decomp)
  have c3: "?sp = ?d @ ''/'' @ name"
    unfolding name by (rule script_path_proper [OF pd])
  have c4: "inside ?d ?sp" by (rule script_path_inside [OF pd])
  have ls: "last_segment ?sp = name"
    unfolding c3 using c1 by (rule last_segment_append)
  have "?sp \<notin> dirs w" using nodir c4 by blast
  moreover have "?sp \<noteq> ?d" by (rule script_path_not_dir [OF pd])
  ultimately have nd: "\<not> names_directory ?w2 ?sp"
    using proper ls by (simp add: names_directory_def)
  have nr: "\<not> open_refused e ?sp" unfolding c3 by (rule accepted)
  have c6: "download_remote e ?sp target ?w2 = (Inr (), ?w3)"
    using download_remote_ok [OF nd nr get ok] by simp
  have c7: "main_run e target args kwargs w
              = (fst (main_run' e ?sp args ?w3),
                 exit_temporary_directory ?d (snd (main_run' e ?sp args ?w3)))"
    using main_run_url [OF u ne, of args kwargs] c6
    by (simp add: with_body_def Let_def)
  from c1 c2 c3 c4 ne c6 c7 show ?thesis by (intro conjI)
qed

lemma demo_fetch:
  "fresh_directory demo_world (mkdtemp demo_env)"
  "''app.py'' = last_segment (strip_slashes
      (urlparse_path demo_env ''https://example.com/scripts/app.py''))"
  "requests_get demo_env ''https://example.com/scripts/app.py''
     = Inr \<lparr> status_code = 200, content = ''print(1)'', http_error_text = [] \<rparr>"
proof -
  show "fresh_directory demo_world (mkdtemp demo_env)"
    by (simp add: fresh_directory_def demo_remote) (simp add: demo_world_def)
  have "last_segment (strip_slashes (urlparse_path demo_env ''https://example.com/scripts/app.py''))
          = ''app.py''"
    by code_simp
  then show "''app.py'' = last_segment (strip_slashes
      (urlparse_path demo_env ''https://example.com/scripts/app.py''))"
    by (rule sym)
  show "requests_get demo_env ''https://example.com/scripts/app.py''
     = Inr \<lparr> status_code = 200, content = ''print(1)'', http_error_text = [] \<rparr>"
    by (simp add: demo_env_def)
qed

theorem remote_script_downloaded_witness:
  "script_path_for demo_env ''https://example.com/scripts/app.py'' ''/tmp/tmpk3x''
     = ''/tmp/tmpk3x/app.py''
   \<and> files (snd (download_remote demo_env ''/tmp/tmpk3x/app.py''
         ''https://example.com/scripts/app.py''
         (demo_world\<lparr>config_options := apply_config_options_from_cli [] (config_options demo_world),
            dirs := insert ''/tmp/tmpk3x'' (dirs demo_world)\<rparr>))) ''/tmp/tmpk3x/app.py''
     = Some ''print(1)''"
proof -
  have proper: "''app.py'' \<noteq> [] \<and> ''app.py'' \<noteq> ''.'' \<and> ''app.py'' \<noteq> ''..''"
    by simp
  have ok: "\<not> (400 \<le> status_code \<lparr> status_code = 200, content = ''print(1)'', http_error_text = [] \<rparr>
               \<and> status_code \<lparr> status_code = 200, content = ''print(1)'', http_error_text = [] \<rparr>
                    < 600)"
    by simp
  have "length (last_segment (mkdtemp demo_env @ ''/'' @ ''app.py'')) = 6"
    by code_simp
  then have accepted: "\<not> open_refused demo_env (mkdtemp demo_env @ ''/'' @ ''app.py'')"
    by (simp add: demo_env_def)
  from remote_script_downloaded [OF demo_remote(1) demo_fetch(1) demo_fetch(2) proper
      accepted demo_fetch(3) ok, of "[]" "[]"]
  show ?thesis by (simp add: demo_remote)
qed

text \<open>
  The claim as stated fails for a URL whose path has no segment: the derived name is
  empty, the script path is the directory itself with a trailing slash, \<^verbatim>\<open>open\<close> raises
  before anything is fetched, and no file is created.
\<close>

theorem remote_script_counterexample:
  "fst (main_run demo_env ''https://example.com'' [] [] demo_world)
     = Inl (OSError ''/tmp/tmpk3x/'')
   \<and> files (snd (download_remote demo_env
         (script_path_for demo_env ''https://example.com'' ''/tmp/tmpk3x'') ''https://example.com''
         (demo_world\<lparr>dirs := insert ''/tmp/tmpk3x'' (dirs demo_world)\<rparr>)))
     = files demo_world"
proof -
  have sp: "script_path_for demo_env ''https://example.com'' ''/tmp/tmpk3x'' = ''/tmp/tmpk3x/''"
    by code_simp
  have ls: "last_segment ''/tmp/tmpk3x/'' = []" by code_simp
  have nd: "\<And>w :: int world. names_directory w ''/tmp/tmpk3x/''"
    by (simp add: names_directory_def ls)
  have dl: "\<And>w :: int world. download_remote demo_env ''/tmp/tmpk3x/'' ''https://example.com'' w
               = (Inl (OSError ''/tmp/tmpk3x/''), w)"
    by (simp add: download_remote_def open_wb_def nd)
  have u: "url demo_env ''https://example.com''" by (simp add: demo_env_def)
  have p: "\<not> path_exists demo_world (mkdtemp demo_env)"
    by (simp add: demo_remote)
  show ?thesis
    using main_run_url [OF u p, of "[]" "[]"]
    by (simp add: with_body_def Let_def sp dl demo_remote)
qed

section \<open>Properties of the Run Orchestrator\<close>

text \<open>
  C8, as the code has it. Once the credentials check has passed: whatever the lookup
  of the latest release gives, a failure included, the Run Orchestrator goes on to
  the bootstrap runner with the file, the command line and the residual arguments,
  and its outcome is that of the runner, provided that the notice, when one is due,
  is written without an error; the notice is then one more line of output, and there
  is none when the lookup failed. When a notice is due and writing it raises, nothing
  catches the exception: the Run Orchestrator ends with it, having set the running
  flag and nothing else, and the bootstrap runner is not called.
\<close>

theorem version_notice_best_effort:
  "(check_activated e = None
      \<and> (newer_release_known e = Inr True \<longrightarrow> click_echo e (NEW_VERSION_TEXT e) = None) \<longrightarrow>
      bootstrap_runs (snd (main_run' e file args w))
        = bootstrap_runs w @ [(file, get_command_line_as_string e, args)]
      \<and> fst (main_run' e file args w)
        = (case bootstrap_run e file (get_command_line_as_string e) args of
             Some err \<Rightarrow> Inl err | None \<Rightarrow> Inr ())
      \<and> stdout (snd (main_run' e file args w))
        = (if newer_release_known e = Inr True then stdout w @ [NEW_VERSION_TEXT e]
           else stdout w))
   \<and> (check_activated e = None \<and> newer_release_known e = Inl failure \<longrightarrow>
      bootstrap_runs (snd (main_run' e file args w))
        = bootstrap_runs w @ [(file, get_command_line_as_string e, args)]
      \<and> fst (main_run' e file args w)
        = (case bootstrap_run e file (get_command_line_as_string e) args of
             Some err \<Rightarrow> Inl err | None \<Rightarrow> Inr ())
      \<and> stdout (snd (main_run' e file args w)) = stdout w)
   \<and> (check_activated e = None \<and> newer_release_known e = Inr True
        \<and> click_echo e (NEW_VERSION_TEXT e) = Some raised \<longrightarrow>
      main_run' e file args w = (Inl raised, w\<lparr>is_running_with_streamlit := True\<rparr>))"
proof -
  have due: "should_show_new_version_notice e \<longleftrightarrow> newer_release_known e = Inr True"
    by (cases "newer_release_known e") (simp_all add: should_show_new_version_notice_def)
  show ?thesis
    by (simp add: main_run'_def Let_def echo_or_raise_def echo_def due split: option.splits)
qed

theorem version_notice_best_effort_witness:
  "bootstrap_runs (snd (main_run' demo_env_offline ''app.py'' [] demo_world))
     = [(''app.py'', ''streamlit run'', [])]
   \<and> stdout (snd (main_run' demo_env_offline ''app.py'' [] demo_world)) = []
   \<and> stdout (snd (main_run' demo_env_notice ''app.py'' [] demo_world))
     = [NEW_VERSION_TEXT demo_env_notice]
   \<and> fst (main_run' demo_env_closed_output ''app.py'' [] demo_world)
     = Inl (OSError ''Broken pipe'')"
proof -
  have a: "check_activated demo_env_offline = None"
    "newer_release_known demo_env_offline = Inl ''network unavailable''"
    "get_command_line_as_string demo_env_offline = ''streamlit run''"
    by (simp_all add: demo_env_offline_def demo_env_def)
  have b: "check_activated demo_env_notice = None"
    "newer_release_known demo_env_notice = Inr True"
    "click_echo demo_env_notice (NEW_VERSION_TEXT demo_env_notice) = None"
    by (simp_all add: demo_env_notice_def demo_env_def)
  have c: "check_activated demo_env_closed_output = None"
    "newer_release_known demo_env_closed_output = Inr True"
    "click_echo demo_env_closed_output (NEW_VERSION_TEXT demo_env_closed_output)
       = Some (OSError ''Broken pipe'')"
    by (simp_all add: demo_env_closed_output_def demo_env_def)
  have d: "bootstrap_runs demo_world = []" "stdout demo_world = []"
    by (simp_all add: demo_world_def)
  from version_notice_best_effort [of demo_env_offline "''app.py''" "[]" demo_world
      "''network unavailable''"] a d
  have "bootstrap_runs (snd (main_run' demo_env_offline ''app.py'' [] demo_world))
          = [(''app.py'', ''streamlit run'', [])]"
    and "stdout (snd (main_run' demo_env_offline ''app.py'' [] demo_world)) = []"
    by simp_all
  moreover
  from version_notice_best_effort [of demo_env_notice "''app.py''" "[]" demo_world] b d
  have "stdout (snd (main_run' demo_env_notice ''app.py'' [] demo_world))
          = [NEW_VERSION_TEXT demo_env_notice]"
    by simp
  moreover
  from version_notice_best_effort [of demo_env_closed_output "''app.py''" "[]" demo_world _
      "OSError ''Broken pipe''"] c
  have "fst (main_run' demo_env_closed_output ''app.py'' [] demo_world)
          = Inl (OSError ''Broken pipe'')"
    by simp
  ultimately show ?thesis by (intro conjI)
qed

text \<open>
  The claim as stated fails where it speaks of emitting the notice: with a newer
  release known and an output that refuses the write, \<^verbatim>\<open>click.echo\<close> raises inside the
  Run Orchestrator, the run is aborted with that error and the bootstrap runner is
  never called.
\<close>

theorem notice_emission_counterexample:
  "check_activated demo_env_closed_output = None
   \<and> should_show_new_version_notice demo_env_closed_output
   \<and> click_echo demo_env_closed_output (NEW_VERSION_TEXT demo_env_closed_output)
       = Some (OSError ''Broken pipe'')
   \<and> main_run' demo_env_closed_output ''app.py'' [] demo_world
       = (Inl (OSError ''Broken pipe''), demo_world\<lparr>is_running_with_streamlit := True\<rparr>)
   \<and> bootstrap_runs (snd (main_run' demo_env_closed_output ''app.py'' [] demo_world)) = []"
proof -
  have c: "check_activated demo_env_closed_output = None"
    "should_show_new_version_notice demo_env_closed_output"
    "click_echo demo_env_closed_output (NEW_VERSION_TEXT demo_env_closed_output)
       = Some (OSError ''Broken pipe'')"
    by (simp_all add: should_show_new_version_notice_def demo_env_closed_output_def demo_env_def)
  have run: "main_run' demo_env_closed_output ''app.py'' [] demo_world
       = (Inl (OSError ''Broken pipe''), demo_world\<lparr>is_running_with_streamlit := True\<rparr>)"
    by (simp add: main_run'_def Let_def echo_or_raise_def c)
  have "bootstrap_runs (snd (main_run' demo_env_closed_output ''app.py'' [] demo_world)) = []"
    unfolding run by (simp add: demo_world_def)
  with c run show ?thesis by (intro conjI)
qed

section \<open>Properties of the legacy alias\<close>



end
